theory Spec2Isabelle
  imports Complex_Main "HOL-Library.Word"
begin

section \<open>Go values shared by the whole package\<close>

text \<open>
  A value held in an \<^verbatim>\<open>interface{}\<close>, as far as the type assertions of the adapters
  tell dynamic types apart. \<open>VSlice\<close> is \<^verbatim>\<open>[]interface{}\<close>, \<open>VStrings\<close> is
  \<^verbatim>\<open>[]string\<close>. A finite \<^verbatim>\<open>float64\<close> is the rational it denotes.
\<close>

datatype gvalue =
    VNil
  | VBool bool
  | VString string
  | VInt int
  | VFloat64 rat
  | VSlice "gvalue list"
  | VStrings "string list"

type_synonym config = "string \<rightharpoonup> gvalue"

text \<open>Errors returned as values, and run-time panics, which are not returned.\<close>

datatype error =
    ErrInvalid
  | OSError string
  | Errorf string error
  | AnError

datatype panic = Panic string

text \<open>
  The calendar part of a \<^verbatim>\<open>time.Time\<close>, and the rest of the instant in \<open>tod\<close>
  (nanoseconds since midnight).
\<close>

record Time =
  year :: nat
  month :: nat
  day :: nat
  tod :: nat

definition digit :: "nat \<Rightarrow> char" where
  "digit n = ''0123456789'' ! (n mod 10)"

fun decimal :: "nat \<Rightarrow> string" where
  "decimal n = (if n < 10 then [digit n] else decimal (n div 10) @ [digit n])"

declare decimal.simps [simp del]

text \<open>\<^verbatim>\<open>appendInt(b, x, width)\<close> of package time, for \<open>x \<ge> 0\<close>: zero-padded decimal.\<close>

definition appendInt :: "nat \<Rightarrow> nat \<Rightarrow> string" where
  "appendInt x width = replicate (width - length (decimal x)) (CHR ''0'') @ decimal x"

text \<open>
  The layouts \<^verbatim>\<open>01\<close> and \<^verbatim>\<open>02\<close> print a month and a day of the month, which are
  below 100 in every \<^verbatim>\<open>time.Time\<close>, as two digits.
\<close>

definition two_digits :: "nat \<Rightarrow> string" where
  "two_digits n = [digit (n div 10), digit n]"

text \<open>\<^verbatim>\<open>t.Format("2006-01-02")\<close>, \<^verbatim>\<open>"2006-01"\<close>, \<^verbatim>\<open>"01-02.log"\<close> and \<^verbatim>\<open>"2006.01.02"\<close>.\<close>

definition Format_date :: "Time \<Rightarrow> string" where
  "Format_date t = appendInt (year t) 4 @ ''-'' @ two_digits (month t) @ ''-'' @ two_digits (day t)"

definition Format_month :: "Time \<Rightarrow> string" where
  "Format_month t = appendInt (year t) 4 @ ''-'' @ two_digits (month t)"

definition Format_dayfile :: "Time \<Rightarrow> string" where
  "Format_dayfile t = two_digits (month t) @ ''-'' @ two_digits (day t) @ ''.log''"

definition Format_dotted :: "Time \<Rightarrow> string" where
  "Format_dotted t = appendInt (year t) 4 @ ''.'' @ two_digits (month t) @ ''.'' @ two_digits (day t)"

record LogEntry =
  Level :: string
  Time :: Time
  Message :: string
  Caller :: string
  NodeID :: string
  Module :: string
  IP :: string
  Properties :: config

section \<open>adapters/kafka.go: the Kafka adapter\<close>

text \<open>
  \<^verbatim>\<open>time.Duration\<close> is an \<^verbatim>\<open>int64\<close> of nanoseconds; its arithmetic wraps.
\<close>

type_synonym Duration = "64 word"

definition Second :: Duration where
  "Second = 1000000000"

record KafkaAdapter =
  Brokers :: "string list"
  Topic :: string
  BatchSize :: int
  FlushTimeout :: Duration
  kafka_buffer :: "LogEntry list"

text \<open>
  What an adapter prints on standard output: one line per entry. The JSON text of the
  entry is the encoder's business; the line is kept as the destination and the entry.
\<close>

datatype outline =
    KafkaLine string LogEntry
  | ElasticLine string LogEntry

text \<open>
  \<^verbatim>\<open>flushBuffer\<close>: nothing on an empty buffer; otherwise one line per buffered entry,
  in order, then \<^verbatim>\<open>a.buffer = a.buffer[:0]\<close>. The result is the returned error, the
  adapter and the lines printed by the call.
\<close>

definition KafkaAdapter_flushBuffer ::
  "KafkaAdapter \<Rightarrow> error option \<times> KafkaAdapter \<times> outline list" where
  "KafkaAdapter_flushBuffer a =
     (if length (kafka_buffer a) = 0 then (None, a, [])
      else (None, a\<lparr>kafka_buffer := []\<rparr>, map (KafkaLine (Topic a)) (kafka_buffer a)))"

definition KafkaAdapter_Process ::
  "LogEntry \<Rightarrow> KafkaAdapter \<Rightarrow> error option \<times> KafkaAdapter \<times> outline list" where
  "KafkaAdapter_Process entry a =
     (let a1 = a\<lparr>kafka_buffer := kafka_buffer a @ [entry]\<rparr>
      in if int (length (kafka_buffer a1)) \<ge> BatchSize a1 then KafkaAdapter_flushBuffer a1
         else (None, a1, []))"

definition KafkaAdapter_Flush ::
  "KafkaAdapter \<Rightarrow> error option \<times> KafkaAdapter \<times> outline list" where
  "KafkaAdapter_Flush a = KafkaAdapter_flushBuffer a"

definition KafkaAdapter_Close ::
  "KafkaAdapter \<Rightarrow> error option \<times> KafkaAdapter \<times> outline list" where
  "KafkaAdapter_Close a = KafkaAdapter_Flush a"

section \<open>adapters/kafka.go: the Elasticsearch adapter\<close>

record ElasticsearchAdapter =
  Hosts :: "string list"
  Index :: string
  Username :: string
  Password :: string
  BulkSize :: int
  FlushInterval :: Duration
  es_buffer :: "LogEntry list"

definition ElasticsearchAdapter_flushBuffer ::
  "ElasticsearchAdapter \<Rightarrow> error option \<times> ElasticsearchAdapter \<times> outline list" where
  "ElasticsearchAdapter_flushBuffer a =
     (if length (es_buffer a) = 0 then (None, a, [])
      else (None, a\<lparr>es_buffer := []\<rparr>, map (ElasticLine (Index a)) (es_buffer a)))"

definition ElasticsearchAdapter_Process ::
  "LogEntry \<Rightarrow> ElasticsearchAdapter \<Rightarrow> error option \<times> ElasticsearchAdapter \<times> outline list" where
  "ElasticsearchAdapter_Process entry a =
     (let a1 = a\<lparr>es_buffer := es_buffer a @ [entry]\<rparr>
      in if int (length (es_buffer a1)) \<ge> BulkSize a1 then ElasticsearchAdapter_flushBuffer a1
         else (None, a1, []))"

definition ElasticsearchAdapter_Flush ::
  "ElasticsearchAdapter \<Rightarrow> error option \<times> ElasticsearchAdapter \<times> outline list" where
  "ElasticsearchAdapter_Flush a = ElasticsearchAdapter_flushBuffer a"

definition ElasticsearchAdapter_Close ::
  "ElasticsearchAdapter \<Rightarrow> error option \<times> ElasticsearchAdapter \<times> outline list" where
  "ElasticsearchAdapter_Close a = ElasticsearchAdapter_Flush a"


section \<open>Initialisation of the adapters from a configuration map\<close>

text \<open>
  The conversion \<^verbatim>\<open>int(f)\<close> of a \<^verbatim>\<open>float64\<close>: the fraction is discarded. Outside the
  range of \<^verbatim>\<open>int64\<close> the language leaves the result to the implementation; amd64
  yields the least \<^verbatim>\<open>int64\<close>.
\<close>

definition float64_to_int :: "rat \<Rightarrow> int" where
  "float64_to_int f =
     (let t = (if f < 0 then - \<lfloor>- f\<rfloor> else \<lfloor>f\<rfloor>)
      in if - (2 ^ 63) \<le> t \<and> t < 2 ^ 63 then t else - (2 ^ 63))"

text \<open>The loop that keeps the elements of a \<^verbatim>\<open>[]interface{}\<close> that are strings.\<close>

fun append_strings :: "string list \<Rightarrow> gvalue list \<Rightarrow> string list" where
  "append_strings acc [] = acc"
| "append_strings acc (VString b # vs) = append_strings (acc @ [b]) vs"
| "append_strings acc (v # vs) = append_strings acc vs"

text \<open>
  \<^verbatim>\<open>make([]logger.LogEntry, 0, n)\<close> panics at run time when \<open>n\<close> is negative or above
  what the runtime can allocate; that limit is the parameter \<open>maxcap\<close>.
\<close>

definition makeslice_panics :: "int \<Rightarrow> int \<Rightarrow> bool" where
  "makeslice_panics maxcap n = (n < 0 \<or> maxcap < n)"

text \<open>
  \<^verbatim>\<open>KafkaAdapter.Init\<close>. The goroutine started last, \<^verbatim>\<open>flushPeriodically\<close>, calls
  \<^verbatim>\<open>Flush\<close> on every tick; it is not part of what \<^verbatim>\<open>Init\<close> returns.
\<close>

definition KafkaAdapter_Init ::
  "int \<Rightarrow> config \<Rightarrow> KafkaAdapter \<Rightarrow> panic + (error option \<times> KafkaAdapter)" where
  "KafkaAdapter_Init maxcap config a =
     (let a1 = (case config ''brokers'' of
                  Some (VSlice brokers) \<Rightarrow> a\<lparr>Brokers := append_strings [] brokers\<rparr>
                | _ \<Rightarrow> a\<lparr>Brokers := [''localhost:9092'']\<rparr>);
          a2 = (case config ''topic'' of
                  Some (VString topic) \<Rightarrow> a1\<lparr>Topic := topic\<rparr>
                | _ \<Rightarrow> a1\<lparr>Topic := ''logs''\<rparr>);
          a3 = (case config ''batch_size'' of
                  Some (VFloat64 batchSize) \<Rightarrow> a2\<lparr>BatchSize := float64_to_int batchSize\<rparr>
                | _ \<Rightarrow> a2\<lparr>BatchSize := 100\<rparr>);
          a4 = (case config ''flush_timeout'' of
                  Some (VFloat64 flushTimeout) \<Rightarrow>
                    a3\<lparr>FlushTimeout := word_of_int (float64_to_int flushTimeout) * Second\<rparr>
                | _ \<Rightarrow> a3\<lparr>FlushTimeout := 5 * Second\<rparr>)
      in if makeslice_panics maxcap (BatchSize a4)
         then Inl (Panic ''makeslice: cap out of range'')
         else Inr (None, a4\<lparr>kafka_buffer := []\<rparr>))"

text \<open>\<^verbatim>\<open>ElasticsearchAdapter.Init\<close>; \<open>now\<close> is the \<^verbatim>\<open>time.Now()\<close> of the default index.\<close>

definition ElasticsearchAdapter_Init ::
  "int \<Rightarrow> Time \<Rightarrow> config \<Rightarrow> ElasticsearchAdapter \<Rightarrow> panic + (error option \<times> ElasticsearchAdapter)" where
  "ElasticsearchAdapter_Init maxcap now config a =
     (let a1 = (case config ''hosts'' of
                  Some (VSlice hosts) \<Rightarrow> a\<lparr>Hosts := append_strings [] hosts\<rparr>
                | _ \<Rightarrow> a\<lparr>Hosts := [''http://localhost:9200'']\<rparr>);
          a2 = (case config ''index'' of
                  Some (VString index) \<Rightarrow> a1\<lparr>Index := index\<rparr>
                | _ \<Rightarrow> a1\<lparr>Index := ''logs-'' @ Format_dotted now\<rparr>);
          a3 = (case config ''username'' of
                  Some (VString username) \<Rightarrow> a2\<lparr>Username := username\<rparr>
                | _ \<Rightarrow> a2);
          a4 = (case config ''password'' of
                  Some (VString password) \<Rightarrow> a3\<lparr>Password := password\<rparr>
                | _ \<Rightarrow> a3);
          a5 = (case config ''bulk_size'' of
                  Some (VFloat64 bulkSize) \<Rightarrow> a4\<lparr>BulkSize := float64_to_int bulkSize\<rparr>
                | _ \<Rightarrow> a4\<lparr>BulkSize := 200\<rparr>);
          a6 = (case config ''flush_interval'' of
                  Some (VFloat64 flushInterval) \<Rightarrow>
                    a5\<lparr>FlushInterval := word_of_int (float64_to_int flushInterval) * Second\<rparr>
                | _ \<Rightarrow> a5\<lparr>FlushInterval := 10 * Second\<rparr>)
      in if makeslice_panics maxcap (BulkSize a6)
         then Inl (Panic ''makeslice: cap out of range'')
         else Inr (None, a6\<lparr>es_buffer := []\<rparr>))"

section \<open>The test double of the adapter tests\<close>

record TestAdapter =
  name :: string
  received :: "LogEntry list"
  initCfg :: "config option"
  initErr :: "error option"
  processErr :: "error option"
  flushErr :: "error option"
  closeErr :: "error option"

definition NewTestAdapter :: "string \<Rightarrow> TestAdapter" where
  "NewTestAdapter nm =
     \<lparr>name = nm, received = [], initCfg = None, initErr = None, processErr = None,
      flushErr = None, closeErr = None\<rparr>"

definition TestAdapter_Init :: "config \<Rightarrow> TestAdapter \<Rightarrow> error option \<times> TestAdapter" where
  "TestAdapter_Init config a = (initErr a, a\<lparr>initCfg := Some config\<rparr>)"

section \<open>The adapter interface, the objects behind it and the registry\<close>

text \<open>
  A \<^verbatim>\<open>LogAdapter\<close> value is a pointer to one of the implementing structs. The objects
  live in a heap, a list indexed by address; allocation appends, so a new address is
  the length of the heap before it.
\<close>

datatype adapter =
    KafkaA KafkaAdapter
  | ElasticA ElasticsearchAdapter
  | TestA TestAdapter

type_synonym heap = "adapter list"

fun LogAdapter_Name :: "adapter \<Rightarrow> string" where
  "LogAdapter_Name (KafkaA a) = ''kafka''"
| "LogAdapter_Name (ElasticA a) = ''elasticsearch''"
| "LogAdapter_Name (TestA a) = name a"

fun LogAdapter_Init ::
  "int \<Rightarrow> Time \<Rightarrow> config \<Rightarrow> adapter \<Rightarrow> panic + (error option \<times> adapter)" where
  "LogAdapter_Init maxcap now config (KafkaA a) =
     (case KafkaAdapter_Init maxcap config a of
        Inl p \<Rightarrow> Inl p
      | Inr (err, a') \<Rightarrow> Inr (err, KafkaA a'))"
| "LogAdapter_Init maxcap now config (ElasticA a) =
     (case ElasticsearchAdapter_Init maxcap now config a of
        Inl p \<Rightarrow> Inl p
      | Inr (err, a') \<Rightarrow> Inr (err, ElasticA a'))"
| "LogAdapter_Init maxcap now config (TestA a) =
     (case TestAdapter_Init config a of (err, a') \<Rightarrow> Inr (err, TestA a'))"

text \<open>A method call through an address: a pointer outside the heap is a nil dereference.\<close>

definition Init_at ::
  "int \<Rightarrow> Time \<Rightarrow> config \<Rightarrow> nat \<Rightarrow> heap \<Rightarrow> panic + (error option \<times> heap)" where
  "Init_at maxcap now config p h =
     (if p < length h
      then (case LogAdapter_Init maxcap now config (h ! p) of
              Inl pn \<Rightarrow> Inl pn
            | Inr (err, obj) \<Rightarrow> Inr (err, h[p := obj]))
      else Inl (Panic ''invalid memory address or nil pointer dereference''))"

type_synonym LogAdapterCreator = "heap \<Rightarrow> nat \<times> heap"

type_synonym registry = "string \<rightharpoonup> LogAdapterCreator"

definition RegisterAdapter :: "string \<Rightarrow> LogAdapterCreator \<Rightarrow> registry \<Rightarrow> registry" where
  "RegisterAdapter nm creator adapterRegistry = adapterRegistry(nm \<mapsto> creator)"

text \<open>\<^verbatim>\<open>GetAdapter\<close>: the adapter (nil when absent), the flag, and the heap after the call.\<close>

definition GetAdapter :: "registry \<Rightarrow> string \<Rightarrow> heap \<Rightarrow> nat option \<times> bool \<times> heap" where
  "GetAdapter adapterRegistry nm h =
     (case adapterRegistry nm of
        None \<Rightarrow> (None, False, h)
      | Some creator \<Rightarrow> (case creator h of (p, h') \<Rightarrow> (Some p, True, h')))"

text \<open>The creators registered by the \<^verbatim>\<open>init\<close> functions of package adapters.\<close>

definition zero_KafkaAdapter :: KafkaAdapter where
  "zero_KafkaAdapter =
     \<lparr>Brokers = [], Topic = [], BatchSize = 0, FlushTimeout = 0, kafka_buffer = []\<rparr>"

definition zero_ElasticsearchAdapter :: ElasticsearchAdapter where
  "zero_ElasticsearchAdapter =
     \<lparr>Hosts = [], Index = [], Username = [], Password = [], BulkSize = 0,
      FlushInterval = 0, es_buffer = []\<rparr>"

definition kafka_creator :: LogAdapterCreator where
  "kafka_creator h = (length h, h @ [KafkaA zero_KafkaAdapter])"

definition elasticsearch_creator :: LogAdapterCreator where
  "elasticsearch_creator h = (length h, h @ [ElasticA zero_ElasticsearchAdapter])"

definition adapters_init :: "registry \<Rightarrow> registry" where
  "adapters_init adapterRegistry =
     RegisterAdapter ''elasticsearch'' elasticsearch_creator
       (RegisterAdapter ''kafka'' kafka_creator adapterRegistry)"

text \<open>
  The creator of \<^verbatim>\<open>TestAdapterRegistration\<close> and \<^verbatim>\<open>TestAdapterIntegration\<close>: a closure
  over one adapter built beforehand, which it returns at every call.
\<close>

definition shared_creator :: "nat \<Rightarrow> LogAdapterCreator" where
  "shared_creator testAdapter h = (testAdapter, h)"


section \<open>The daily rotating writer\<close>

text \<open>
  A path is the list of its elements; the root given by the caller is the first one,
  taken as it is. \<^verbatim>\<open>filepath.Join\<close> adds an element.
\<close>

type_synonym path = "string list"

definition filepath_Join :: "path \<Rightarrow> string \<Rightarrow> path" where
  "filepath_Join p elem = p @ [elem]"

record fsys =
  files :: "path \<rightharpoonup> 8 word list"
  dirs :: "path set"

text \<open>
  What the operating system and the clock answer during one call: the two readings of
  \<^verbatim>\<open>time.Now()\<close> (in \<^verbatim>\<open>Write\<close>, then in \<^verbatim>\<open>rotateFile\<close>) and the outcome of each
  system call. A failed write reports how many bytes went out before the error.
\<close>

record os_env =
  clock_Write :: Time
  clock_rotate :: Time
  close_err :: "error option"
  mkdir_err :: "error option"
  open_err :: "error option"
  write_err :: "(nat \<times> error) option"
  sync_err :: "error option"

text \<open>An open \<^verbatim>\<open>*os.File\<close> is known by the path it was opened on; nil is \<open>None\<close>.\<close>

record DailyRotateWriter =
  logPath :: string
  "file" :: "path option"
  currentDate :: string

definition contents :: "fsys \<Rightarrow> path \<Rightarrow> 8 word list" where
  "contents fs p = (case files fs p of None \<Rightarrow> [] | Some bs \<Rightarrow> bs)"

text \<open>The directories \<^verbatim>\<open>os.MkdirAll\<close> makes sure of: the path and each of its parents.\<close>

fun parents :: "path \<Rightarrow> path list" where
  "parents [] = []"
| "parents (x # xs) = [x] # map ((#) x) (parents xs)"

definition os_MkdirAll :: "os_env \<Rightarrow> path \<Rightarrow> fsys \<Rightarrow> error option \<times> fsys" where
  "os_MkdirAll env p fs =
     (case mkdir_err env of
        Some err \<Rightarrow> (Some err, fs)
      | None \<Rightarrow> (None, fs\<lparr>dirs := dirs fs \<union> set (parents p)\<rparr>))"

text \<open>\<^verbatim>\<open>os.OpenFile(name, O_CREATE|O_APPEND|O_WRONLY, 0644)\<close>.\<close>

definition os_OpenFile :: "os_env \<Rightarrow> path \<Rightarrow> fsys \<Rightarrow> path option \<times> error option \<times> fsys" where
  "os_OpenFile env p fs =
     (case open_err env of
        Some err \<Rightarrow> (None, Some err, fs)
      | None \<Rightarrow> (Some p, None, fs\<lparr>files := (files fs)(p \<mapsto> contents fs p)\<rparr>))"

text \<open>
  The methods of \<^verbatim>\<open>*os.File\<close>. On a nil receiver each returns \<^verbatim>\<open>os.ErrInvalid\<close>; the
  file is opened for appending, so a write lands at its end.
\<close>

definition File_Write ::
  "os_env \<Rightarrow> path option \<Rightarrow> 8 word list \<Rightarrow> fsys \<Rightarrow> nat \<times> error option \<times> fsys" where
  "File_Write env f p fs =
     (case f of
        None \<Rightarrow> (0, Some ErrInvalid, fs)
      | Some h \<Rightarrow>
          (case write_err env of
             None \<Rightarrow> (length p, None, fs\<lparr>files := (files fs)(h \<mapsto> contents fs h @ p)\<rparr>)
           | Some (n, err) \<Rightarrow>
               (min n (length p), Some err,
                fs\<lparr>files := (files fs)(h \<mapsto> contents fs h @ take n p)\<rparr>)))"

definition File_Close :: "os_env \<Rightarrow> path option \<Rightarrow> error option" where
  "File_Close env f = (case f of None \<Rightarrow> Some ErrInvalid | Some h \<Rightarrow> close_err env)"

definition File_Sync :: "os_env \<Rightarrow> path option \<Rightarrow> error option" where
  "File_Sync env f = (case f of None \<Rightarrow> Some ErrInvalid | Some h \<Rightarrow> sync_err env)"

definition rotateFile ::
  "os_env \<Rightarrow> DailyRotateWriter \<Rightarrow> fsys \<Rightarrow> error option \<times> DailyRotateWriter \<times> fsys" where
  "rotateFile env w fs =
     (case (if file w \<noteq> None
            then (case File_Close env (file w) of
                    Some err \<Rightarrow> Inl err
                  | None \<Rightarrow> Inr (w\<lparr>file := None\<rparr>))
            else Inr w) of
        Inl err \<Rightarrow> (Some err, w, fs)
      | Inr w1 \<Rightarrow>
          (let now = clock_rotate env;
               w2 = w1\<lparr>currentDate := Format_date now\<rparr>;
               monthDir = Format_month now;
               dayFile = Format_dayfile now;
               monthDirPath = filepath_Join [logPath w2] monthDir
           in case os_MkdirAll env monthDirPath fs of
                (Some err, fs1) \<Rightarrow> (Some (Errorf ''create month directory failed'' err), w2, fs1)
              | (None, fs1) \<Rightarrow>
                  (let logFileName = filepath_Join monthDirPath dayFile
                   in case os_OpenFile env logFileName fs1 of
                        (f, Some err, fs2) \<Rightarrow> (Some (Errorf ''open log file failed'' err), w2, fs2)
                      | (f, None, fs2) \<Rightarrow> (None, w2\<lparr>file := f\<rparr>, fs2))))"

text \<open>
  \<^verbatim>\<open>NewDailyRotateWriter\<close> returns the error and no writer, or the writer and no error.
\<close>

definition NewDailyRotateWriter ::
  "os_env \<Rightarrow> string \<Rightarrow> fsys \<Rightarrow> (error + DailyRotateWriter) \<times> fsys" where
  "NewDailyRotateWriter env base fs =
     (let writer = \<lparr>logPath = base, file = None, currentDate = []\<rparr>
      in case rotateFile env writer fs of
           (Some err, writer', fs') \<Rightarrow> (Inl err, fs')
         | (None, writer', fs') \<Rightarrow> (Inr writer', fs'))"

definition Write ::
  "os_env \<Rightarrow> 8 word list \<Rightarrow> DailyRotateWriter \<Rightarrow> fsys
     \<Rightarrow> nat \<times> error option \<times> DailyRotateWriter \<times> fsys" where
  "Write env p w fs =
     (let today = Format_date (clock_Write env)
      in case (if today \<noteq> currentDate w then rotateFile env w fs else (None, w, fs)) of
           (Some err, w1, fs1) \<Rightarrow> (0, Some err, w1, fs1)
         | (None, w1, fs1) \<Rightarrow>
             (case File_Write env (file w1) p fs1 of (n, err, fs2) \<Rightarrow> (n, err, w1, fs2)))"

definition Sync :: "os_env \<Rightarrow> DailyRotateWriter \<Rightarrow> error option" where
  "Sync env w = (if file w \<noteq> None then File_Sync env (file w) else None)"

definition Close :: "os_env \<Rightarrow> DailyRotateWriter \<Rightarrow> error option \<times> DailyRotateWriter" where
  "Close env w =
     (if file w \<noteq> None
      then (let err = File_Close env (file w) in (err, w\<lparr>file := None\<rparr>))
      else (None, w))"

text \<open>A history of a writer: calls of its methods, each with what the system answers.\<close>

datatype call = CallWrite os_env "8 word list" | CallSync os_env | CallClose os_env

fun run_call :: "call \<Rightarrow> DailyRotateWriter \<times> fsys \<Rightarrow> DailyRotateWriter \<times> fsys" where
  "run_call (CallWrite env p) (w, fs) = (case Write env p w fs of (n, err, w', fs') \<Rightarrow> (w', fs'))"
| "run_call (CallSync env) (w, fs) = (w, fs)"
| "run_call (CallClose env) (w, fs) = (case Close env w of (err, w') \<Rightarrow> (w', fs))"

fun run_calls :: "call list \<Rightarrow> DailyRotateWriter \<times> fsys \<Rightarrow> DailyRotateWriter \<times> fsys" where
  "run_calls [] s = s"
| "run_calls (c # cs) s = run_calls cs (run_call c s)"

text \<open>The file of a day under a root directory: \<^verbatim>\<open><root>/<YYYY-MM>/<MM-DD>.log\<close>.\<close>

definition daily_file :: "string \<Rightarrow> Time \<Rightarrow> path" where
  "daily_file base t = [base, Format_month t, Format_dayfile t]"

text \<open>The clock reading that a call of \<^verbatim>\<open>Write\<close> took last.\<close>

definition last_reading :: "os_env \<Rightarrow> DailyRotateWriter \<Rightarrow> Time" where
  "last_reading env w =
     (if Format_date (clock_Write env) \<noteq> currentDate w then clock_rotate env else clock_Write env)"


section \<open>Construction of a logger\<close>

type_synonym OutputType = string

definition OutputFile :: OutputType where
  "OutputFile = ''file''"

definition OutputTerminal :: OutputType where
  "OutputTerminal = ''terminal''"

definition OutputBoth :: OutputType where
  "OutputBoth = ''both''"

record AdapterConfig =
  Name :: string
  Config :: config

datatype zap_level = DebugLevel | InfoLevel | WarnLevel | ErrorLevel | PanicLevel

definition parse_level :: "string \<Rightarrow> zap_level" where
  "parse_level logLevel =
     (if logLevel = ''debug'' then DebugLevel
      else if logLevel = ''info'' then InfoLevel
      else if logLevel = ''warn'' then WarnLevel
      else if logLevel = ''error'' then ErrorLevel
      else if logLevel = ''panic'' then PanicLevel
      else InfoLevel)"

text \<open>
  A core of the zap logger: the console, or the rotating file behind its writer. The
  encoders are left to zap.
\<close>

datatype core = ConsoleCore zap_level | FileCore zap_level DailyRotateWriter

record ZapLogger =
  cores :: "core list"
  zap_fields :: "(string \<times> string) list"
  adapters :: "nat list"
  nodeID :: string
  module :: string
  ip :: string

text \<open>
  What one call of \<^verbatim>\<open>NewZapLogger\<close> finds around it: the answers of the operating
  system, the registry, the allocation limit of the runtime and the clock.
\<close>

record sys =
  os :: os_env
  adapterRegistry :: registry
  maxcap :: int
  clock :: Time

text \<open>
  The loop over the adapter configurations. The result is a panic, or the error or the
  adapter list together with the heap.
\<close>

fun init_adapters ::
  "sys \<Rightarrow> AdapterConfig list \<Rightarrow> nat list \<Rightarrow> heap \<Rightarrow> panic + ((error + nat list) \<times> heap)" where
  "init_adapters sy [] ads h = Inr (Inr ads, h)"
| "init_adapters sy (cfg # cfgs) ads h =
     (case GetAdapter (adapterRegistry sy) (Name cfg) h of
        (adapter, exists, h1) \<Rightarrow>
          (if \<not> exists then init_adapters sy cfgs ads h1
           else (case adapter of
                   None \<Rightarrow> Inl (Panic ''invalid memory address or nil pointer dereference'')
                 | Some a \<Rightarrow>
                     (case Init_at (maxcap sy) (clock sy) (Config cfg) a h1 of
                        Inl pn \<Rightarrow> Inl pn
                      | Inr (Some err, h2) \<Rightarrow>
                          Inr (Inl (Errorf (''init adapter '' @ Name cfg @ '' failed'') err), h2)
                      | Inr (None, h2) \<Rightarrow> init_adapters sy cfgs (ads @ [a]) h2))))"

definition NewZapLogger ::
  "sys \<Rightarrow> string \<Rightarrow> string \<Rightarrow> string \<Rightarrow> string \<Rightarrow> string \<Rightarrow> OutputType \<Rightarrow> AdapterConfig list
     \<Rightarrow> fsys \<Rightarrow> heap \<Rightarrow> panic + ((error + ZapLogger) \<times> fsys \<times> heap)" where
  "NewZapLogger sy logLevel logPth nodeId modl ipAddr outputType adapterConfigs fs h =
     (let level = parse_level logLevel;
          cores1 = (if outputType = OutputTerminal \<or> outputType = OutputBoth
                    then [ConsoleCore level] else [])
      in case (if (outputType = OutputFile \<or> outputType = OutputBoth) \<and> logPth \<noteq> []
               then (case NewDailyRotateWriter (os sy) logPth fs of
                       (Inl err, fs1) \<Rightarrow> Inl (Errorf ''create log rotator failed'' err, fs1)
                     | (Inr rotator, fs1) \<Rightarrow> Inr (cores1 @ [FileCore level rotator], fs1))
               else Inr (cores1, fs)) of
           Inl (err, fs1) \<Rightarrow> Inr (Inl err, fs1, h)
         | Inr (cores2, fs1) \<Rightarrow>
             (let cores3 = (if length cores2 = 0 then cores2 @ [ConsoleCore level] else cores2);
                  fields1 = (if nodeId \<noteq> [] then [(''nodeId'', nodeId)] else []);
                  fields2 = (if modl \<noteq> [] then fields1 @ [(''module'', modl)] else fields1);
                  fields3 = (if ipAddr \<noteq> [] then fields2 @ [(''ip'', ipAddr)] else fields2)
              in case init_adapters sy adapterConfigs [] h of
                   Inl pn \<Rightarrow> Inl pn
                 | Inr (Inl err, h1) \<Rightarrow> Inr (Inl err, fs1, h1)
                 | Inr (Inr ads, h1) \<Rightarrow>
                     Inr (Inr \<lparr>cores = cores3, zap_fields = fields3, adapters = ads,
                               nodeID = nodeId, module = modl, ip = ipAddr\<rparr>, fs1, h1)))"

section \<open>factory.go: the default logger, and the empty logger\<close>

datatype Logger = ZapL ZapLogger | EmptyL

text \<open>
  \<^verbatim>\<open>Default\<close>, over the call that builds the console logger: the variable
  \<^verbatim>\<open>defaultLogger\<close> goes in, the returned logger and the variable come out.
\<close>

definition Default_with ::
  "(fsys \<Rightarrow> heap \<Rightarrow> panic + ((error + ZapLogger) \<times> fsys \<times> heap)) \<Rightarrow> Logger option \<Rightarrow> fsys \<Rightarrow> heap
     \<Rightarrow> panic + (Logger option \<times> Logger option \<times> fsys \<times> heap)" where
  "Default_with build defaultLogger fs h =
     (if defaultLogger = None
      then (case build fs h of
              Inl pn \<Rightarrow> Inl pn
            | Inr (Inl err, fs', h') \<Rightarrow> Inr (Some EmptyL, Some EmptyL, fs', h')
            | Inr (Inr logger, fs', h') \<Rightarrow> Inr (Some (ZapL logger), Some (ZapL logger), fs', h'))
      else Inr (defaultLogger, defaultLogger, fs, h))"

definition Default ::
  "sys \<Rightarrow> Logger option \<Rightarrow> fsys \<Rightarrow> heap \<Rightarrow> panic + (Logger option \<times> Logger option \<times> fsys \<times> heap)" where
  "Default sy defaultLogger fs h =
     Default_with (NewZapLogger sy ''info'' [] [] ''default'' [] OutputTerminal []) defaultLogger fs h"

text \<open>
  The methods of \<^verbatim>\<open>emptyLogger\<close>, each with an empty body: the state of the program
  (file system, heap, standard output) goes through unchanged.
\<close>

type_synonym world = "fsys \<times> heap \<times> outline list"

definition emptyLogger_Panic :: "gvalue list \<Rightarrow> world \<Rightarrow> world" where
  "emptyLogger_Panic args wd = wd"

definition emptyLogger_Panicf :: "string \<Rightarrow> gvalue list \<Rightarrow> world \<Rightarrow> world" where
  "emptyLogger_Panicf format args wd = wd"

definition emptyLogger_Error :: "gvalue list \<Rightarrow> world \<Rightarrow> world" where
  "emptyLogger_Error args wd = wd"

definition emptyLogger_Errorf :: "string \<Rightarrow> gvalue list \<Rightarrow> world \<Rightarrow> world" where
  "emptyLogger_Errorf format args wd = wd"

definition emptyLogger_Warn :: "gvalue list \<Rightarrow> world \<Rightarrow> world" where
  "emptyLogger_Warn args wd = wd"

definition emptyLogger_Warnf :: "string \<Rightarrow> gvalue list \<Rightarrow> world \<Rightarrow> world" where
  "emptyLogger_Warnf format args wd = wd"

definition emptyLogger_Info :: "gvalue list \<Rightarrow> world \<Rightarrow> world" where
  "emptyLogger_Info args wd = wd"

definition emptyLogger_Infof :: "string \<Rightarrow> gvalue list \<Rightarrow> world \<Rightarrow> world" where
  "emptyLogger_Infof format args wd = wd"

definition emptyLogger_Debug :: "gvalue list \<Rightarrow> world \<Rightarrow> world" where
  "emptyLogger_Debug args wd = wd"

definition emptyLogger_Debugf :: "string \<Rightarrow> gvalue list \<Rightarrow> world \<Rightarrow> world" where
  "emptyLogger_Debugf format args wd = wd"

definition emptyLogger_Close :: "world \<Rightarrow> error option \<times> world" where
  "emptyLogger_Close wd = (None, wd)"

definition emptyLogger_AddAdapter :: "nat \<Rightarrow> world \<Rightarrow> world" where
  "emptyLogger_AddAdapter adapter wd = wd"

definition emptyLogger_RemoveAdapter :: "string \<Rightarrow> world \<Rightarrow> world" where
  "emptyLogger_RemoveAdapter nm wd = wd"


section \<open>An invariant of the writer, and the values of the examples\<close>

text \<open>
  The open handle is the daily file of the recorded date: the month directory is the
  date without its day, the file name is the date without its year.
\<close>

definition handle_follows_date :: "DailyRotateWriter \<Rightarrow> bool" where
  "handle_follows_date w =
     (case file w of
        None \<Rightarrow> True
      | Some h \<Rightarrow>
          h = [logPath w,
               take (length (currentDate w) - 3) (currentDate w),
               drop (length (currentDate w) - 5) (currentDate w) @ ''.log''])"

text \<open>The number that a string of decimal digits denotes.\<close>

fun digit_val :: "char \<Rightarrow> nat" where
  "digit_val c = of_char c - 48"

definition decimal_val :: "string \<Rightarrow> nat" where
  "decimal_val s = foldl (\<lambda>a c. 10 * a + digit_val c) 0 s"

definition mar15 :: Time where
  "mar15 = \<lparr>year = 2023, month = 3, day = 15, tod = 36000000000000\<rparr>"

definition mar16 :: Time where
  "mar16 = \<lparr>year = 2023, month = 3, day = 16, tod = 1000000000\<rparr>"

text \<open>A system in which every call succeeds, at one instant.\<close>

definition calm :: "Time \<Rightarrow> os_env" where
  "calm t = \<lparr>clock_Write = t, clock_rotate = t, close_err = None, mkdir_err = None,
     open_err = None, write_err = None, sync_err = None\<rparr>"

definition fs_empty :: fsys where
  "fs_empty = \<lparr>files = Map.empty, dirs = {}\<rparr>"

definition w15 :: DailyRotateWriter where
  "w15 = \<lparr>logPath = ''./logs'', file = Some [''./logs'', ''2023-03'', ''03-15.log''],
     currentDate = ''2023-03-15''\<rparr>"

definition fs15 :: fsys where
  "fs15 = \<lparr>files = [[''./logs'', ''2023-03'', ''03-15.log''] \<mapsto> []],
     dirs = {[''./logs''], [''./logs'', ''2023-03'']}\<rparr>"

definition fs15_hi :: fsys where
  "fs15_hi = \<lparr>files = [[''./logs'', ''2023-03'', ''03-15.log''] \<mapsto> [104, 105]],
     dirs = {[''./logs''], [''./logs'', ''2023-03'']}\<rparr>"

definition w16 :: DailyRotateWriter where
  "w16 = \<lparr>logPath = ''./logs'', file = Some [''./logs'', ''2023-03'', ''03-16.log''],
     currentDate = ''2023-03-16''\<rparr>"

definition fs16 :: fsys where
  "fs16 = \<lparr>files = [[''./logs'', ''2023-03'', ''03-15.log''] \<mapsto> [104, 105],
                      [''./logs'', ''2023-03'', ''03-16.log''] \<mapsto> [111, 107]],
     dirs = {[''./logs''], [''./logs'', ''2023-03'']}\<rparr>"

definition entry1 :: LogEntry where
  "entry1 = \<lparr>Level = ''info'', Time = mar15, Message = ''first'', Caller = [], NodeID = [],
     Module = [], IP = [], Properties = Map.empty\<rparr>"

definition entry2 :: LogEntry where
  "entry2 = entry1\<lparr>Message := ''second''\<rparr>"

definition kafka2 :: KafkaAdapter where
  "kafka2 = \<lparr>Brokers = [''localhost:9092''], Topic = ''logs'', BatchSize = 2,
     FlushTimeout = 5 * Second, kafka_buffer = []\<rparr>"

definition elastic2 :: ElasticsearchAdapter where
  "elastic2 = \<lparr>Hosts = [''http://localhost:9200''], Index = ''idx'', Username = [],
     Password = [], BulkSize = 2, FlushInterval = 10 * Second, es_buffer = []\<rparr>"

definition test_heap :: heap where
  "test_heap = [TestA (NewTestAdapter ''test'')]"

definition test_registry :: registry where
  "test_registry = RegisterAdapter ''test'' (shared_creator 0) Map.empty"

definition failing_heap :: heap where
  "failing_heap = [TestA ((NewTestAdapter ''test'')\<lparr>initErr := Some AnError\<rparr>)]"

definition failed_heap :: heap where
  "failed_heap = [TestA ((NewTestAdapter ''test'')
     \<lparr>initCfg := Some [''key'' \<mapsto> VString ''value''], initErr := Some AnError\<rparr>)]"

definition test_sys :: sys where
  "test_sys = \<lparr>os = calm mar15, adapterRegistry = test_registry, maxcap = 1000, clock = mar15\<rparr>"

definition prometheus_cfg :: AdapterConfig where
  "prometheus_cfg = \<lparr>Name = ''prometheus'', Config = Map.empty\<rparr>"

definition test_cfg :: AdapterConfig where
  "test_cfg = \<lparr>Name = ''test'', Config = [''key'' \<mapsto> VString ''value'']\<rparr>"

text \<open>
  A system with the creators of package adapters registered beside the test adapter, a
  configuration for the Kafka adapter, and that adapter after \<^verbatim>\<open>Init\<close> on it.
\<close>

definition mixed_sys :: sys where
  "mixed_sys = test_sys\<lparr>adapterRegistry := adapters_init test_registry\<rparr>"

definition kafka_cfg :: AdapterConfig where
  "kafka_cfg = \<lparr>Name = ''kafka'', Config = Map.empty\<rparr>"

definition kafka_ready :: KafkaAdapter where
  "kafka_ready = \<lparr>Brokers = [''localhost:9092''], Topic = ''logs'', BatchSize = 100,
     FlushTimeout = 5 * Second, kafka_buffer = []\<rparr>"

text \<open>The logger that \<^verbatim>\<open>Default\<close> builds, and a construction that fails.\<close>

definition default_zap :: ZapLogger where
  "default_zap = \<lparr>cores = [ConsoleCore InfoLevel], zap_fields = [(''module'', ''default'')],
     adapters = [], nodeID = [], module = ''default'', ip = []\<rparr>"

definition failing_build :: "fsys \<Rightarrow> heap \<Rightarrow> panic + ((error + ZapLogger) \<times> fsys \<times> heap)" where
  "failing_build fs h = Inr (Inl (OSError ''stdout''), fs, h)"


section \<open>Formatting of dates\<close>

lemma length_two_digits [simp]: "length (two_digits n) = 2"
  by (simp add: two_digits_def)

lemma Format_date_split: "Format_date t = Format_month t @ ''-'' @ two_digits (day t)"
  by (simp add: Format_date_def Format_month_def)

lemma Format_month_of_date:
  "Format_month t = take (length (Format_date t) - 3) (Format_date t)"
  by (simp add: Format_date_def Format_month_def)

lemma Format_dayfile_of_date:
  "Format_dayfile t = drop (length (Format_date t) - 5) (Format_date t) @ ''.log''"
  by (simp add: Format_date_def Format_dayfile_def)

lemma day_of_dayfile: "two_digits (day t) = take 2 (drop 3 (Format_dayfile t))"
  by (simp add: Format_dayfile_def)

lemma daily_file_eq_iff:
  "daily_file base t = daily_file base t' \<longleftrightarrow> Format_date t = Format_date t'"
proof
  assume "daily_file base t = daily_file base t'"
  then have "Format_month t = Format_month t'" and "Format_dayfile t = Format_dayfile t'"
    by (simp_all add: daily_file_def)
  then show "Format_date t = Format_date t'"
    by (simp add: Format_date_split day_of_dayfile)
next
  assume "Format_date t = Format_date t'"
  then show "daily_file base t = daily_file base t'"
    by (simp add: daily_file_def Format_month_of_date Format_dayfile_of_date)
qed

lemma digit_val_table: "k < 10 \<Longrightarrow> digit_val (''0123456789'' ! k) = k"
proof -
  assume "k < 10"
  then have "k \<in> {0, 1, 2, 3, 4, 5, 6, 7, 8, 9}" by auto
  then show ?thesis by (elim insertE emptyE) simp_all
qed

lemma digit_val_digit: "digit_val (digit n) = n mod 10"
  unfolding digit_def by (rule digit_val_table) simp

lemma decimal_val_snoc: "decimal_val (s @ [c]) = 10 * decimal_val s + digit_val c"
  by (simp add: decimal_val_def)

lemma decimal_val_decimal: "decimal_val (decimal n) = n"
proof (induction n rule: decimal.induct)
  case (1 n)
  show ?case
  proof (cases "n < 10")
    case True
    then show ?thesis
      by (subst decimal.simps) (simp add: decimal_val_def digit_val_digit del: digit_val.simps)
  next
    case False
    with 1 have "decimal_val (decimal (n div 10)) = n div 10" by simp
    with False show ?thesis
      by (subst decimal.simps) (simp add: decimal_val_snoc digit_val_digit del: digit_val.simps)
  qed
qed

lemma decimal_val_zeros: "decimal_val (replicate k (CHR ''0'') @ s) = decimal_val s"
proof -
  have "foldl (\<lambda>a c. 10 * a + digit_val c) 0 (replicate k (CHR ''0'')) = 0"
    by (induction k) simp_all
  then show ?thesis by (simp add: decimal_val_def)
qed

lemma decimal_val_appendInt: "decimal_val (appendInt x w) = x"
  by (simp add: appendInt_def decimal_val_zeros decimal_val_decimal)

lemma decimal_val_two_digits: "n < 100 \<Longrightarrow> decimal_val (two_digits n) = n"
proof -
  assume "n < 100"
  then have "n div 10 mod 10 = n div 10" by simp
  then show ?thesis
    by (simp add: two_digits_def decimal_val_def digit_val_digit del: digit_val.simps)
qed

lemma Format_date_parts:
  "appendInt (year t) 4 = take (length (Format_date t) - 6) (Format_date t)"
  "two_digits (month t) = take 2 (drop (length (Format_date t) - 5) (Format_date t))"
  "two_digits (day t) = drop (length (Format_date t) - 2) (Format_date t)"
  by (simp_all add: Format_date_def)

lemma Format_date_inj:
  assumes "month t < 100" "day t < 100" "month t' < 100" "day t' < 100"
    and "Format_date t = Format_date t'"
  shows "year t = year t' \<and> month t = month t' \<and> day t = day t'"
proof -
  from assms(5) have "appendInt (year t) 4 = appendInt (year t') 4"
    and "two_digits (month t) = two_digits (month t')"
    and "two_digits (day t) = two_digits (day t')"
    by (simp_all add: Format_date_parts)
  then have "decimal_val (appendInt (year t) 4) = decimal_val (appendInt (year t') 4)"
    and "decimal_val (two_digits (month t)) = decimal_val (two_digits (month t'))"
    and "decimal_val (two_digits (day t)) = decimal_val (two_digits (day t'))"
    by simp_all
  with assms(1-4) show ?thesis
    by (simp add: decimal_val_appendInt decimal_val_two_digits)
qed

lemma daily_file_one_per_day:
  assumes "month t < 100" "day t < 100" "month t' < 100" "day t' < 100"
  shows "daily_file base t = daily_file base t'
     \<longleftrightarrow> year t = year t' \<and> month t = month t' \<and> day t = day t'"
proof
  assume "daily_file base t = daily_file base t'"
  then have "Format_date t = Format_date t'" by (simp add: daily_file_eq_iff)
  with assms show "year t = year t' \<and> month t = month t' \<and> day t = day t'"
    by (rule Format_date_inj)
next
  assume "year t = year t' \<and> month t = month t' \<and> day t = day t'"
  then show "daily_file base t = daily_file base t'"
    by (simp add: daily_file_def Format_month_def Format_dayfile_def)
qed

lemma daily_file_of_date:
  "daily_file base t =
     [base, take (length (Format_date t) - 3) (Format_date t),
      drop (length (Format_date t) - 5) (Format_date t) @ ''.log'']"
  by (simp add: daily_file_def Format_month_of_date Format_dayfile_of_date)

lemma decimal_2023: "decimal 2023 = ''2023''"
  by (simp add: decimal.simps digit_def)

lemma Format_mar15:
  "Format_date mar15 = ''2023-03-15''" "Format_month mar15 = ''2023-03''"
  "Format_dayfile mar15 = ''03-15.log''"
  by (simp_all add: Format_date_def Format_month_def Format_dayfile_def mar15_def appendInt_def
      two_digits_def digit_def decimal_2023)

lemma Format_mar16:
  "Format_date mar16 = ''2023-03-16''" "Format_month mar16 = ''2023-03''"
  "Format_dayfile mar16 = ''03-16.log''"
  by (simp_all add: Format_date_def Format_month_def Format_dayfile_def mar16_def appendInt_def
      two_digits_def digit_def decimal_2023)

section \<open>The writer keeps its handle on the daily file of its date\<close>

lemma rotateFile_cases:
  "rotateFile env w fs = (r, w', fs') \<Longrightarrow>
     (r \<noteq> None \<and> w' = w \<and> file w \<noteq> None \<and> fs' = fs) \<or>
     (r \<noteq> None \<and> file w' = None \<and> logPath w' = logPath w) \<or>
     (r = None \<and> logPath w' = logPath w \<and> currentDate w' = Format_date (clock_rotate env)
        \<and> file w' = Some (daily_file (logPath w) (clock_rotate env))
        \<and> files fs' = (files fs)(daily_file (logPath w) (clock_rotate env)
              \<mapsto> contents fs (daily_file (logPath w) (clock_rotate env))))"
  by (auto simp: rotateFile_def File_Close_def os_MkdirAll_def os_OpenFile_def Let_def
      filepath_Join_def daily_file_def contents_def
      split: if_splits option.splits sum.splits prod.splits)

lemma rotateFile_follows:
  "handle_follows_date w \<Longrightarrow> rotateFile env w fs = (r, w', fs') \<Longrightarrow>
     handle_follows_date w' \<and> logPath w' = logPath w"
  by (drule rotateFile_cases) (auto simp: handle_follows_date_def daily_file_of_date)

lemma File_Write_ok:
  "File_Write env f p fs = (n, None, fs') \<Longrightarrow>
     \<exists>h. f = Some h \<and> n = length p \<and> files fs' = (files fs)(h \<mapsto> contents fs h @ p)"
  by (auto simp: File_Write_def split: option.splits prod.splits)

lemma Write_follows:
  "handle_follows_date w \<Longrightarrow> Write env p w fs = (n, r, w', fs') \<Longrightarrow>
     handle_follows_date w' \<and> logPath w' = logPath w"
  by (auto simp: Write_def Let_def split: if_splits prod.splits option.splits
      dest: rotateFile_follows)

lemma Close_follows:
  "handle_follows_date w \<Longrightarrow> Close env w = (r, w') \<Longrightarrow>
     handle_follows_date w' \<and> logPath w' = logPath w"
  by (auto simp: Close_def Let_def handle_follows_date_def split: if_splits)

lemma run_call_follows:
  "handle_follows_date w \<Longrightarrow> run_call c (w, fs) = (w', fs') \<Longrightarrow>
     handle_follows_date w' \<and> logPath w' = logPath w"
  by (cases c) (auto split: prod.splits dest: Write_follows Close_follows)

lemma run_calls_follows:
  "handle_follows_date w \<Longrightarrow> run_calls cs (w, fs) = (w', fs') \<Longrightarrow>
     handle_follows_date w' \<and> logPath w' = logPath w"
proof (induction cs arbitrary: w fs)
  case Nil
  then show ?case by simp
next
  case (Cons c cs)
  obtain w1 fs1 where s: "run_call c (w, fs) = (w1, fs1)"
    by (cases "run_call c (w, fs)")
  with Cons.prems(1) have "handle_follows_date w1 \<and> logPath w1 = logPath w"
    by (rule run_call_follows)
  with Cons.IH [of w1 fs1] Cons.prems(2) s show ?case by simp
qed

lemma NewDailyRotateWriter_follows:
  assumes "NewDailyRotateWriter env base fs = (Inr w, fs')"
  shows "handle_follows_date w \<and> logPath w = base"
proof -
  have z: "handle_follows_date \<lparr>logPath = base, file = None, currentDate = []\<rparr>"
    by (simp add: handle_follows_date_def)
  from assms obtain r' where
    "rotateFile env \<lparr>logPath = base, file = None, currentDate = []\<rparr> fs = (r', w, fs')"
    by (auto simp: NewDailyRotateWriter_def Let_def split: prod.splits option.splits)
  with z show ?thesis by (auto dest: rotateFile_follows)
qed

lemma Write_ok_daily_file:
  assumes "handle_follows_date w" and "Write env p w fs = (n, None, w', fs')"
  shows "n = length p \<and> file w' = Some (daily_file (logPath w) (last_reading env w))
     \<and> files fs' = (files fs)(daily_file (logPath w) (last_reading env w)
          \<mapsto> contents fs (daily_file (logPath w) (last_reading env w)) @ p)"
proof (cases "Format_date (clock_Write env) \<noteq> currentDate w")
  case True
  obtain r w1 fs1 where rot: "rotateFile env w fs = (r, w1, fs1)"
    by (cases "rotateFile env w fs")
  with True assms(2) have r: "r = None" and w1: "w1 = w'"
    and fw: "File_Write env (file w1) p fs1 = (n, None, fs')"
    by (auto simp: Write_def Let_def split: option.splits prod.splits)
  from rotateFile_cases [OF rot] r
  have f: "file w1 = Some (daily_file (logPath w) (clock_rotate env))"
    and fl: "files fs1 = (files fs)(daily_file (logPath w) (clock_rotate env)
              \<mapsto> contents fs (daily_file (logPath w) (clock_rotate env)))"
    by auto
  from File_Write_ok [OF fw] f fl True w1 show ?thesis
    by (auto simp: last_reading_def contents_def)
next
  case False
  with assms(2) have w1: "w' = w" and fw: "File_Write env (file w) p fs = (n, None, fs')"
    by (auto simp: Write_def Let_def split: option.splits prod.splits)
  from File_Write_ok [OF fw] obtain h where h: "file w = Some h" "n = length p"
    "files fs' = (files fs)(h \<mapsto> contents fs h @ p)" by auto
  from assms(1) h(1) False have "h = daily_file (logPath w) (clock_Write env)"
    by (simp add: handle_follows_date_def daily_file_of_date)
  with h False w1 show ?thesis by (simp add: last_reading_def)
qed

lemma New_mar15: "NewDailyRotateWriter (calm mar15) ''./logs'' fs_empty = (Inr w15, fs15)"
  by (simp add: NewDailyRotateWriter_def rotateFile_def calm_def Format_mar15 os_MkdirAll_def
      os_OpenFile_def filepath_Join_def fs_empty_def w15_def fs15_def contents_def Let_def
      insert_commute)

lemma Write_mar15: "Write (calm mar15) [104, 105] w15 fs15 = (2, None, w15, fs15_hi)"
  by (simp add: Write_def calm_def Format_mar15 File_Write_def w15_def fs15_def fs15_hi_def
      contents_def Let_def)

lemma Write_mar16: "Write (calm mar16) [111, 107] w15 fs15_hi = (2, None, w16, fs16)"
  by (simp add: Write_def rotateFile_def calm_def Format_mar16 os_MkdirAll_def File_Close_def
      File_Write_def os_OpenFile_def filepath_Join_def w15_def w16_def fs15_hi_def fs16_def
      contents_def Let_def insert_commute fun_upd_twist)


section \<open>The logger built by \<^verbatim>\<open>NewZapLogger\<close>\<close>

lemma init_adapters_skip:
  "adapterRegistry sy (Name cfg) = None \<Longrightarrow>
     init_adapters sy (cfgs1 @ cfg # cfgs2) ads h = init_adapters sy (cfgs1 @ cfgs2) ads h"
proof (induction cfgs1 arbitrary: ads h)
  case Nil
  then show ?case by (simp add: GetAdapter_def)
next
  case (Cons c cfgs1)
  then show ?case
    by (simp split: prod.splits option.splits sum.splits)
qed

lemma init_adapters_append:
  "init_adapters sy cfgs1 ads h = Inr (Inr ads1, h1) \<Longrightarrow>
     init_adapters sy (cfgs1 @ cfgs2) ads h = init_adapters sy cfgs2 ads1 h1"
proof (induction cfgs1 arbitrary: ads h)
  case Nil
  then show ?case by simp
next
  case (Cons c cfgs1)
  then show ?case
    by (auto split: prod.splits if_splits option.splits sum.splits)
qed

lemma init_adapters_unknown:
  "\<forall>c \<in> set cfgs. adapterRegistry sy (Name c) = None \<Longrightarrow>
     init_adapters sy cfgs ads h = Inr (Inr ads, h)"
  by (induction cfgs arbitrary: ads h) (simp_all add: GetAdapter_def)

lemma NewZapLogger_terminal:
  "NewZapLogger sy lvl pth nid m ipa OutputTerminal cfgs fs h =
     (case init_adapters sy cfgs [] h of
        Inl pn \<Rightarrow> Inl pn
      | Inr (Inl err, h1) \<Rightarrow> Inr (Inl err, fs, h1)
      | Inr (Inr ads, h1) \<Rightarrow>
          Inr (Inr \<lparr>cores = [ConsoleCore (parse_level lvl)],
                    zap_fields = (if nid \<noteq> [] then [(''nodeId'', nid)] else [])
                      @ (if m \<noteq> [] then [(''module'', m)] else [])
                      @ (if ipa \<noteq> [] then [(''ip'', ipa)] else []),
                    adapters = ads, nodeID = nid, module = m, ip = ipa\<rparr>, fs, h1))"
  by (simp add: NewZapLogger_def OutputTerminal_def OutputFile_def OutputBoth_def Let_def
      split: sum.splits prod.splits)

lemma NewZapLogger_skip:
  "adapterRegistry sy (Name cfg) = None \<Longrightarrow>
     NewZapLogger sy lvl pth nid m ipa out (cfgs1 @ cfg # cfgs2) fs h
       = NewZapLogger sy lvl pth nid m ipa out (cfgs1 @ cfgs2) fs h"
  by (simp only: NewZapLogger_def init_adapters_skip)

lemma NewZapLogger_Init_error:
  assumes "init_adapters sy cfgs [] h = Inr (Inl err, h2)"
  shows "\<exists>e fs'. NewZapLogger sy lvl pth nid m ipa out cfgs fs h = Inr (Inl e, fs', h)
            \<or> NewZapLogger sy lvl pth nid m ipa out cfgs fs h = Inr (Inl e, fs', h2)"
  using assms
  by (auto simp: NewZapLogger_def Let_def split: sum.splits prod.splits option.splits)

lemma NewZapLogger_console:
  "NewZapLogger sy ''info'' [] [] ''default'' [] OutputTerminal [] fs h
     = Inr (Inr default_zap, fs, h)"
  by (simp add: NewZapLogger_terminal parse_level_def default_zap_def)



section \<open>What \<^verbatim>\<open>Init\<close> does when it returns\<close>

lemma BatchSize_after_timeout:
  "BatchSize (case v of Some (VFloat64 f) \<Rightarrow> a\<lparr>FlushTimeout := g f\<rparr> | _ \<Rightarrow> a\<lparr>FlushTimeout := d\<rparr>)
     = BatchSize a"
  by (simp split: option.splits gvalue.splits)

lemma KafkaAdapter_Init_returns:
  "\<not> makeslice_panics mc (case config ''batch_size'' of
        Some (VFloat64 f) \<Rightarrow> float64_to_int f | _ \<Rightarrow> 100) \<Longrightarrow>
     \<exists>a'. KafkaAdapter_Init mc config a = Inr (None, a')"
  unfolding KafkaAdapter_Init_def Let_def BatchSize_after_timeout
  by (cases "config ''batch_size''"; simp split: gvalue.splits)

lemma KafkaAdapter_Init_empty:
  "100 \<le> mc \<Longrightarrow>
     KafkaAdapter_Init mc Map.empty a =
       Inr (None, a\<lparr>Brokers := [''localhost:9092''], Topic := ''logs'', BatchSize := 100,
                   FlushTimeout := 5 * Second, kafka_buffer := []\<rparr>)"
  by (simp add: KafkaAdapter_Init_def makeslice_panics_def Let_def)

lemma ElasticsearchAdapter_Init_empty:
  "200 \<le> mc \<Longrightarrow>
     ElasticsearchAdapter_Init mc now Map.empty a =
       Inr (None, a\<lparr>Hosts := [''http://localhost:9200''], Index := ''logs-'' @ Format_dotted now,
                   BulkSize := 200, FlushInterval := 10 * Second, es_buffer := []\<rparr>)"
  by (simp add: ElasticsearchAdapter_Init_def makeslice_panics_def Let_def)

section \<open>The properties of the specification\<close>

text \<open>
  C1. Every successful write appends its bytes to the file
  \<^verbatim>\<open><root>/<YYYY-MM>/<MM-DD>.log\<close> of the date that the clock showed at the write. For a
  writer built by \<^verbatim>\<open>NewDailyRotateWriter\<close> and used through any history of calls, a
  \<^verbatim>\<open>Write\<close> that returns no error has written all of its bytes at the end of the daily
  file of the last clock reading of the call, which is the root, the year and month, and
  the month and day with the suffix \<^verbatim>\<open>.log\<close>; the handle the writer keeps is that file;
  and two instants have the same daily file exactly when they format to the same date,
  that is (months and days being below 100) when they have the same year, month and day:
  there is one file per calendar day.
\<close>

theorem write_appends_to_daily_file:
  assumes "NewDailyRotateWriter env0 base fs0 = (Inr w0, fs1)"
    and "run_calls cs (w0, fs1) = (w, fs)"
    and "Write env p w fs = (n, None, w', fs')"
  shows "n = length p
     \<and> file w' = Some (daily_file base (last_reading env w))
     \<and> daily_file base (last_reading env w)
         = [base, Format_month (last_reading env w), Format_dayfile (last_reading env w)]
     \<and> files fs' = (files fs)(daily_file base (last_reading env w)
          \<mapsto> contents fs (daily_file base (last_reading env w)) @ p)
     \<and> (\<forall>t. daily_file base t = daily_file base (last_reading env w)
            \<longleftrightarrow> Format_date t = Format_date (last_reading env w))
     \<and> (\<forall>t. month t < 100 \<and> day t < 100
              \<and> month (last_reading env w) < 100 \<and> day (last_reading env w) < 100 \<longrightarrow>
            (daily_file base t = daily_file base (last_reading env w)
               \<longleftrightarrow> year t = year (last_reading env w) \<and> month t = month (last_reading env w)
                    \<and> day t = day (last_reading env w)))"
proof -
  from NewDailyRotateWriter_follows [OF assms(1)]
  have "handle_follows_date w0" and "logPath w0 = base" by simp_all
  with run_calls_follows [OF _ assms(2)]
  have "handle_follows_date w" and "logPath w = base" by simp_all
  with Write_ok_daily_file [OF _ assms(3)]
  have a: "n = length p"
    and b: "file w' = Some (daily_file base (last_reading env w))"
    and c: "files fs' = (files fs)(daily_file base (last_reading env w)
          \<mapsto> contents fs (daily_file base (last_reading env w)) @ p)"
    by simp_all
  have d: "daily_file base (last_reading env w)
         = [base, Format_month (last_reading env w), Format_dayfile (last_reading env w)]"
    by (simp add: daily_file_def)
  have e: "\<forall>t. daily_file base t = daily_file base (last_reading env w)
            \<longleftrightarrow> Format_date t = Format_date (last_reading env w)"
    by (simp add: daily_file_eq_iff)
  have f: "\<forall>t. month t < 100 \<and> day t < 100
              \<and> month (last_reading env w) < 100 \<and> day (last_reading env w) < 100 \<longrightarrow>
            (daily_file base t = daily_file base (last_reading env w)
               \<longleftrightarrow> year t = year (last_reading env w) \<and> month t = month (last_reading env w)
                    \<and> day t = day (last_reading env w))"
    by (simp add: daily_file_one_per_day)
  show ?thesis
    by (intro conjI) (rule a b c d e f)+
qed

theorem write_appends_to_daily_file_witness:
  "NewDailyRotateWriter (calm mar15) ''./logs'' fs_empty = (Inr w15, fs15)
   \<and> run_calls [CallWrite (calm mar15) [104, 105]] (w15, fs15) = (w15, fs15_hi)
   \<and> Write (calm mar16) [111, 107] w15 fs15_hi = (2, None, w16, fs16)
   \<and> file w16 = Some [''./logs'', ''2023-03'', ''03-16.log'']
   \<and> files fs16 = (files fs15_hi)([''./logs'', ''2023-03'', ''03-16.log''] \<mapsto> [111, 107])"
proof -
  have r: "run_calls [CallWrite (calm mar15) [104, 105]] (w15, fs15) = (w15, fs15_hi)"
    by (simp add: Write_mar15)
  have l: "last_reading (calm mar16) w15 = mar16"
    by (simp add: last_reading_def calm_def Format_mar16 w15_def)
  have c: "contents fs15_hi [''./logs'', ''2023-03'', ''03-16.log''] = []"
    by (simp add: contents_def fs15_hi_def)
  from write_appends_to_daily_file [OF New_mar15 r Write_mar16] New_mar15 r Write_mar16
  show ?thesis
    by (simp add: l c daily_file_def Format_mar16)
qed

text \<open>
  C2. \<^verbatim>\<open>Process\<close> of a batching adapter appends the entry; when the buffer has then
  reached the batch size, the same call flushes once, printing every buffered entry in
  order, and leaves the buffer empty; when the buffer is still below the batch size, the
  call only appends and prints nothing.
\<close>

theorem process_flushes_at_batch_size:
  "(BatchSize a \<le> int (length (kafka_buffer a)) + 1 \<longrightarrow>
      KafkaAdapter_Process e a =
        (None, a\<lparr>kafka_buffer := []\<rparr>, map (KafkaLine (Topic a)) (kafka_buffer a @ [e])))
   \<and> (int (length (kafka_buffer a)) + 1 < BatchSize a \<longrightarrow>
      KafkaAdapter_Process e a = (None, a\<lparr>kafka_buffer := kafka_buffer a @ [e]\<rparr>, []))
   \<and> (BulkSize b \<le> int (length (es_buffer b)) + 1 \<longrightarrow>
      ElasticsearchAdapter_Process e b =
        (None, b\<lparr>es_buffer := []\<rparr>, map (ElasticLine (Index b)) (es_buffer b @ [e])))
   \<and> (int (length (es_buffer b)) + 1 < BulkSize b \<longrightarrow>
      ElasticsearchAdapter_Process e b = (None, b\<lparr>es_buffer := es_buffer b @ [e]\<rparr>, []))"
  by (simp add: KafkaAdapter_Process_def KafkaAdapter_flushBuffer_def
      ElasticsearchAdapter_Process_def ElasticsearchAdapter_flushBuffer_def Let_def)

theorem process_flushes_at_batch_size_witness:
  "KafkaAdapter_Process entry1 kafka2 = (None, kafka2\<lparr>kafka_buffer := [entry1]\<rparr>, [])
   \<and> KafkaAdapter_Process entry2 (kafka2\<lparr>kafka_buffer := [entry1]\<rparr>) =
        (None, kafka2, [KafkaLine ''logs'' entry1, KafkaLine ''logs'' entry2])
   \<and> ElasticsearchAdapter_Process entry1 elastic2 = (None, elastic2\<lparr>es_buffer := [entry1]\<rparr>, [])
   \<and> ElasticsearchAdapter_Process entry2 (elastic2\<lparr>es_buffer := [entry1]\<rparr>) =
        (None, elastic2, [ElasticLine ''idx'' entry1, ElasticLine ''idx'' entry2])"
  using process_flushes_at_batch_size [of kafka2 entry1 elastic2]
    process_flushes_at_batch_size
      [of "kafka2\<lparr>kafka_buffer := [entry1]\<rparr>" entry2 "elastic2\<lparr>es_buffer := [entry1]\<rparr>"]
  by (simp add: kafka2_def elastic2_def)

text \<open>
  C3. When a write finds the date changed and the close of the open handle fails, the
  close error is the error of the write and the old handle is discarded all the same.
  The first half holds. The second does not: \<^verbatim>\<open>rotateFile\<close> returns before it clears
  the handle, so the writer keeps the handle of the old day and its old date, while
  \<^verbatim>\<open>Close\<close>, on the same failure, clears it.
\<close>

theorem rotation_close_failure_keeps_handle:
  "Write ((calm mar16)\<lparr>close_err := Some (OSError ''close'')\<rparr>) [111, 107] w15 fs15
     = (0, Some (OSError ''close''), w15, fs15)
   \<and> file w15 = Some [''./logs'', ''2023-03'', ''03-15.log'']
   \<and> Close ((calm mar16)\<lparr>close_err := Some (OSError ''close'')\<rparr>) w15
     = (Some (OSError ''close''), w15\<lparr>file := None\<rparr>)"
  by (simp add: Write_def rotateFile_def calm_def Format_mar16 File_Close_def Close_def w15_def
      Let_def)

text \<open>
  C4. A writer left without a handle while its recorded date is still today should, at
  the next write, open the file of the day again. It does not: the date still matches,
  so \<^verbatim>\<open>Write\<close> skips \<^verbatim>\<open>rotateFile\<close> and writes through the nil handle, which returns
  \<^verbatim>\<open>os.ErrInvalid\<close>; nothing is written and the handle stays nil. This is so after
  \<^verbatim>\<open>Close\<close>, and also after a rotation that closed the old file, recorded the new date
  and then failed to create the directory.
\<close>

theorem write_after_close_fails_on_nil_handle:
  "Close (calm mar15) w15 = (None, w15\<lparr>file := None\<rparr>)
   \<and> Format_date (clock_Write (calm mar15)) = currentDate (w15\<lparr>file := None\<rparr>)
   \<and> Write (calm mar15) [104, 105] (w15\<lparr>file := None\<rparr>) fs15
     = (0, Some ErrInvalid, w15\<lparr>file := None\<rparr>, fs15)
   \<and> Write ((calm mar16)\<lparr>mkdir_err := Some (OSError ''mkdir'')\<rparr>) [111, 107] w15 fs15
     = (0, Some (Errorf ''create month directory failed'' (OSError ''mkdir'')),
        w15\<lparr>file := None, currentDate := ''2023-03-16''\<rparr>, fs15)
   \<and> Write (calm mar16) [111, 107] (w15\<lparr>file := None, currentDate := ''2023-03-16''\<rparr>) fs15
     = (0, Some ErrInvalid, w15\<lparr>file := None, currentDate := ''2023-03-16''\<rparr>, fs15)"
  by (simp add: Write_def rotateFile_def calm_def Format_mar15 Format_mar16 File_Close_def
      File_Write_def os_MkdirAll_def filepath_Join_def Close_def w15_def Let_def)

text \<open>
  C5. \<^verbatim>\<open>Flush\<close> of a batching adapter on an empty buffer changes nothing, prints
  nothing and returns no error; and after any flush, which returns no error and leaves
  the buffer empty, a second flush changes nothing, prints nothing and returns no error.
\<close>

theorem flush_idempotent:
  "(kafka_buffer a = [] \<longrightarrow> KafkaAdapter_Flush a = (None, a, []))
   \<and> (case KafkaAdapter_Flush a of
         (err, a', out) \<Rightarrow>
           err = None \<and> kafka_buffer a' = [] \<and> KafkaAdapter_Flush a' = (None, a', []))
   \<and> (es_buffer b = [] \<longrightarrow> ElasticsearchAdapter_Flush b = (None, b, []))
   \<and> (case ElasticsearchAdapter_Flush b of
         (err, b', out) \<Rightarrow>
           err = None \<and> es_buffer b' = [] \<and> ElasticsearchAdapter_Flush b' = (None, b', []))"
  by (simp add: KafkaAdapter_Flush_def KafkaAdapter_flushBuffer_def
      ElasticsearchAdapter_Flush_def ElasticsearchAdapter_flushBuffer_def)

theorem flush_idempotent_witness:
  "KafkaAdapter_Flush kafka2 = (None, kafka2, [])
   \<and> KafkaAdapter_Flush (kafka2\<lparr>kafka_buffer := [entry1]\<rparr>)
        = (None, kafka2, [KafkaLine ''logs'' entry1])
   \<and> ElasticsearchAdapter_Flush elastic2 = (None, elastic2, [])
   \<and> ElasticsearchAdapter_Flush (elastic2\<lparr>es_buffer := [entry1]\<rparr>)
        = (None, elastic2, [ElasticLine ''idx'' entry1])"
  using flush_idempotent [of kafka2 elastic2]
    flush_idempotent [of "kafka2\<lparr>kafka_buffer := [entry1]\<rparr>" "elastic2\<lparr>es_buffer := [entry1]\<rparr>"]
  by (simp add: kafka2_def elastic2_def KafkaAdapter_Flush_def KafkaAdapter_flushBuffer_def
      ElasticsearchAdapter_Flush_def ElasticsearchAdapter_flushBuffer_def)

text \<open>
  C6. \<^verbatim>\<open>Init\<close> of either adapter should return no error on every configuration map.
  On a map whose batch size is the number \<open>-1\<close> it does not return: the size is taken as
  it is, and the allocation of the buffer with a negative capacity panics.
\<close>

theorem Init_panics_on_negative_batch_size:
  "KafkaAdapter_Init mc [''batch_size'' \<mapsto> VFloat64 (- 1)] zero_KafkaAdapter
     = Inl (Panic ''makeslice: cap out of range'')
   \<and> ElasticsearchAdapter_Init mc t [''bulk_size'' \<mapsto> VFloat64 (- 1)] zero_ElasticsearchAdapter
     = Inl (Panic ''makeslice: cap out of range'')"
  by (simp add: KafkaAdapter_Init_def ElasticsearchAdapter_Init_def float64_to_int_def
      makeslice_panics_def Let_def)


text \<open>
  C8 (as amended). \<^verbatim>\<open>GetAdapter\<close> returns nil and false for a name that is not
  registered; for a registered name it calls the registered creator and returns what the
  creator returns, with true. Whether that is a new instance is the creator's doing: the
  creators that package adapters registers allocate a new zero-valued adapter at every
  call, so two calls give two addresses, neither of them in the heap before.
\<close>

theorem GetAdapter_calls_creator:
  "(reg nm = None \<longrightarrow> GetAdapter reg nm h = (None, False, h))
   \<and> (reg nm = Some creator \<longrightarrow>
        GetAdapter reg nm h = (Some (fst (creator h)), True, snd (creator h)))
   \<and> GetAdapter (adapters_init reg) ''kafka'' h
        = (Some (length h), True, h @ [KafkaA zero_KafkaAdapter])
   \<and> GetAdapter (adapters_init reg) ''elasticsearch'' h
        = (Some (length h), True, h @ [ElasticA zero_ElasticsearchAdapter])
   \<and> fst (GetAdapter (adapters_init reg) ''kafka''
            (snd (snd (GetAdapter (adapters_init reg) ''kafka'' h)))) = Some (Suc (length h))
   \<and> fst (GetAdapter (adapters_init reg) ''elasticsearch''
            (snd (snd (GetAdapter (adapters_init reg) ''elasticsearch'' h))))
        = Some (Suc (length h))"
  by (simp add: GetAdapter_def adapters_init_def RegisterAdapter_def kafka_creator_def
      elasticsearch_creator_def split: prod.splits)

theorem GetAdapter_calls_creator_witness:
  "GetAdapter test_registry ''prometheus'' test_heap = (None, False, test_heap)
   \<and> GetAdapter test_registry ''test'' test_heap = (Some 0, True, test_heap)
   \<and> GetAdapter (adapters_init test_registry) ''kafka'' test_heap
        = (Some 1, True, test_heap @ [KafkaA zero_KafkaAdapter])"
  using GetAdapter_calls_creator [of test_registry "''prometheus''" test_heap "shared_creator 0"]
    GetAdapter_calls_creator [of test_registry "''test''" test_heap "shared_creator 0"]
  by (simp add: test_registry_def RegisterAdapter_def shared_creator_def test_heap_def)

text \<open>
  The claim as written fails on the registration of the repository's own tests: the
  creator returns one adapter built beforehand, and two calls of \<^verbatim>\<open>GetAdapter\<close> return
  that same adapter, which was in the heap before the first call.
\<close>

theorem GetAdapter_shared_instance_counterexample:
  "GetAdapter test_registry ''test'' test_heap = (Some 0, True, test_heap)
   \<and> fst (GetAdapter test_registry ''test''
            (snd (snd (GetAdapter test_registry ''test'' test_heap))))
        = fst (GetAdapter test_registry ''test'' test_heap)
   \<and> 0 < length test_heap"
  by (simp add: GetAdapter_def test_registry_def RegisterAdapter_def shared_creator_def
      test_heap_def)

text \<open>
  C9. \<^verbatim>\<open>Default\<close> never returns nil. Whatever the construction of the console logger
  does, a logger that \<^verbatim>\<open>Default\<close> returns is not nil and is the one it leaves in
  \<^verbatim>\<open>defaultLogger\<close>; when no default logger is set and the construction returns an
  error, that logger is the empty logger; with the constructor of the package the call
  returns the console logger, and a logger already set is returned as it is. On the empty
  logger every leveled operation leaves the state of the program as it was, and \<^verbatim>\<open>Close\<close>
  returns no error.
\<close>

theorem Default_never_nil:
  "(Default_with build dl fs h = Inr (r, dl', fs', h') \<longrightarrow> r \<noteq> None \<and> dl' = r)
   \<and> (build fs h = Inr (Inl err, fs', h') \<longrightarrow>
        Default_with build None fs h = Inr (Some EmptyL, Some EmptyL, fs', h'))
   \<and> Default sy None fs h = Inr (Some (ZapL default_zap), Some (ZapL default_zap), fs, h)
   \<and> Default sy (Some lg) fs h = Inr (Some lg, Some lg, fs, h)
   \<and> emptyLogger_Panic args wd = wd \<and> emptyLogger_Panicf fmt args wd = wd
   \<and> emptyLogger_Error args wd = wd \<and> emptyLogger_Errorf fmt args wd = wd
   \<and> emptyLogger_Warn args wd = wd \<and> emptyLogger_Warnf fmt args wd = wd
   \<and> emptyLogger_Info args wd = wd \<and> emptyLogger_Infof fmt args wd = wd
   \<and> emptyLogger_Debug args wd = wd \<and> emptyLogger_Debugf fmt args wd = wd
   \<and> emptyLogger_Close wd = (None, wd)"
  by (auto simp: Default_with_def Default_def NewZapLogger_console
      emptyLogger_Panic_def emptyLogger_Panicf_def emptyLogger_Error_def emptyLogger_Errorf_def
      emptyLogger_Warn_def emptyLogger_Warnf_def emptyLogger_Info_def emptyLogger_Infof_def
      emptyLogger_Debug_def emptyLogger_Debugf_def emptyLogger_Close_def
      split: if_splits sum.splits prod.splits)

theorem Default_never_nil_witness:
  "Default_with failing_build None fs_empty [] = Inr (Some EmptyL, Some EmptyL, fs_empty, [])
   \<and> Some EmptyL \<noteq> None
   \<and> Default test_sys None fs_empty []
        = Inr (Some (ZapL default_zap), Some (ZapL default_zap), fs_empty, [])"
  using Default_never_nil
      [of failing_build None fs_empty "[]" "Some EmptyL" "Some EmptyL" fs_empty "[]"
        "OSError ''stdout''" test_sys]
  by (simp add: failing_build_def)

text \<open>
  C10. A configuration whose name is not in the registry is skipped: the construction
  gives what it gives without that configuration, and with only such configurations (and
  the console as output) it succeeds with no adapter in the logger. A registered adapter
  whose \<^verbatim>\<open>Init\<close> returns an error makes the construction return an error, which with the
  console as output is the error of \<^verbatim>\<open>Init\<close> wrapped under the name of the adapter; and
  this at every position of the list: after any configurations that the loop went
  through without error, whatever follows the failing one. A registered adapter whose
  \<^verbatim>\<open>Init\<close> returns no error is added to the list and the loop goes on, and the logger
  holds the adapters that the loop collected.
\<close>

theorem unknown_adapter_skipped_Init_error_aborts:
  "(adapterRegistry sy (Name cfg) = None \<longrightarrow>
      NewZapLogger sy lvl pth nid m ipa out (cfgs1 @ cfg # cfgs2) fs h
        = NewZapLogger sy lvl pth nid m ipa out (cfgs1 @ cfgs2) fs h)
   \<and> ((\<forall>c \<in> set cfgs. adapterRegistry sy (Name c) = None) \<longrightarrow>
      (\<exists>lg. NewZapLogger sy lvl pth nid m ipa OutputTerminal cfgs fs h = Inr (Inr lg, fs, h)
          \<and> adapters lg = []))
   \<and> (adapterRegistry sy (Name cfg) = Some creator \<and> creator h = (a, h1)
        \<and> Init_at (maxcap sy) (clock sy) (Config cfg) a h1 = Inr (Some err, h2) \<longrightarrow>
      NewZapLogger sy lvl pth nid m ipa OutputTerminal (cfg # cfgs2) fs h
        = Inr (Inl (Errorf (''init adapter '' @ Name cfg @ '' failed'') err), fs, h2)
      \<and> (\<exists>e fs' h'. NewZapLogger sy lvl pth nid m ipa out (cfg # cfgs2) fs h
            = Inr (Inl e, fs', h')))
   \<and> (init_adapters sy cfgs1 [] h = Inr (Inr ads1, g)
        \<and> adapterRegistry sy (Name cfg) = Some creator \<and> creator g = (a, g1)
        \<and> Init_at (maxcap sy) (clock sy) (Config cfg) a g1 = Inr (Some err, g2) \<longrightarrow>
      NewZapLogger sy lvl pth nid m ipa OutputTerminal (cfgs1 @ cfg # cfgs2) fs h
        = Inr (Inl (Errorf (''init adapter '' @ Name cfg @ '' failed'') err), fs, g2)
      \<and> (\<exists>e fs' h'. NewZapLogger sy lvl pth nid m ipa out (cfgs1 @ cfg # cfgs2) fs h
            = Inr (Inl e, fs', h')))
   \<and> (adapterRegistry sy (Name cfg) = Some creator \<and> creator h = (a, h1)
        \<and> Init_at (maxcap sy) (clock sy) (Config cfg) a h1 = Inr (None, h2) \<longrightarrow>
      init_adapters sy (cfg # cfgs2) ads h = init_adapters sy cfgs2 (ads @ [a]) h2)
   \<and> (init_adapters sy cfgs [] h = Inr (Inr ads1, g) \<longrightarrow>
      (\<exists>lg. NewZapLogger sy lvl pth nid m ipa OutputTerminal cfgs fs h = Inr (Inr lg, fs, g)
          \<and> adapters lg = ads1))"
proof (intro conjI impI)
  assume "adapterRegistry sy (Name cfg) = None"
  then show "NewZapLogger sy lvl pth nid m ipa out (cfgs1 @ cfg # cfgs2) fs h
        = NewZapLogger sy lvl pth nid m ipa out (cfgs1 @ cfgs2) fs h"
    by (rule NewZapLogger_skip)
next
  assume "\<forall>c \<in> set cfgs. adapterRegistry sy (Name c) = None"
  then have "init_adapters sy cfgs [] h = Inr (Inr [], h)"
    by (rule init_adapters_unknown)
  then show "\<exists>lg. NewZapLogger sy lvl pth nid m ipa OutputTerminal cfgs fs h = Inr (Inr lg, fs, h)
          \<and> adapters lg = []"
    by (simp add: NewZapLogger_terminal)
next
  assume "adapterRegistry sy (Name cfg) = Some creator \<and> creator h = (a, h1)
        \<and> Init_at (maxcap sy) (clock sy) (Config cfg) a h1 = Inr (Some err, h2)"
  then have i: "init_adapters sy (cfg # cfgs2) [] h
       = Inr (Inl (Errorf (''init adapter '' @ Name cfg @ '' failed'') err), h2)"
    by (simp add: GetAdapter_def)
  then show "NewZapLogger sy lvl pth nid m ipa OutputTerminal (cfg # cfgs2) fs h
        = Inr (Inl (Errorf (''init adapter '' @ Name cfg @ '' failed'') err), fs, h2)"
    by (simp add: NewZapLogger_terminal)
  from NewZapLogger_Init_error [OF i]
  show "\<exists>e fs' h'. NewZapLogger sy lvl pth nid m ipa out (cfg # cfgs2) fs h
            = Inr (Inl e, fs', h')"
    by blast
next
  assume p: "init_adapters sy cfgs1 [] h = Inr (Inr ads1, g)
        \<and> adapterRegistry sy (Name cfg) = Some creator \<and> creator g = (a, g1)
        \<and> Init_at (maxcap sy) (clock sy) (Config cfg) a g1 = Inr (Some err, g2)"
  then have "init_adapters sy (cfg # cfgs2) ads1 g
       = Inr (Inl (Errorf (''init adapter '' @ Name cfg @ '' failed'') err), g2)"
    by (simp add: GetAdapter_def)
  with p have i: "init_adapters sy (cfgs1 @ cfg # cfgs2) [] h
       = Inr (Inl (Errorf (''init adapter '' @ Name cfg @ '' failed'') err), g2)"
    by (simp add: init_adapters_append)
  then show "NewZapLogger sy lvl pth nid m ipa OutputTerminal (cfgs1 @ cfg # cfgs2) fs h
        = Inr (Inl (Errorf (''init adapter '' @ Name cfg @ '' failed'') err), fs, g2)"
    by (simp add: NewZapLogger_terminal)
  from NewZapLogger_Init_error [OF i]
  show "\<exists>e fs' h'. NewZapLogger sy lvl pth nid m ipa out (cfgs1 @ cfg # cfgs2) fs h
            = Inr (Inl e, fs', h')"
    by blast
next
  assume "adapterRegistry sy (Name cfg) = Some creator \<and> creator h = (a, h1)
        \<and> Init_at (maxcap sy) (clock sy) (Config cfg) a h1 = Inr (None, h2)"
  then show "init_adapters sy (cfg # cfgs2) ads h = init_adapters sy cfgs2 (ads @ [a]) h2"
    by (simp add: GetAdapter_def)
next
  assume "init_adapters sy cfgs [] h = Inr (Inr ads1, g)"
  then show "\<exists>lg. NewZapLogger sy lvl pth nid m ipa OutputTerminal cfgs fs h = Inr (Inr lg, fs, g)
          \<and> adapters lg = ads1"
    by (simp add: NewZapLogger_terminal)
qed

theorem unknown_adapter_skipped_Init_error_aborts_witness:
  "NewZapLogger test_sys ''info'' [] [] ''default'' [] OutputTerminal [prometheus_cfg] fs_empty []
     = Inr (Inr default_zap, fs_empty, [])
   \<and> NewZapLogger test_sys ''info'' [] [] ''default'' [] OutputTerminal [test_cfg] fs_empty
        failing_heap
     = Inr (Inl (Errorf ''init adapter test failed'' AnError), fs_empty, failed_heap)
   \<and> NewZapLogger mixed_sys ''info'' [] [] ''default'' [] OutputTerminal
        [kafka_cfg, prometheus_cfg] fs_empty failing_heap
     = Inr (Inr (default_zap\<lparr>adapters := [1]\<rparr>), fs_empty, failing_heap @ [KafkaA kafka_ready])
   \<and> NewZapLogger mixed_sys ''info'' [] [] ''default'' [] OutputTerminal
        [kafka_cfg, prometheus_cfg, test_cfg, kafka_cfg] fs_empty failing_heap
     = Inr (Inl (Errorf ''init adapter test failed'' AnError), fs_empty,
            failed_heap @ [KafkaA kafka_ready])"
proof -
  have u: "adapterRegistry test_sys (Name prometheus_cfg) = None"
    by (simp add: test_sys_def prometheus_cfg_def test_registry_def RegisterAdapter_def)
  have i: "adapterRegistry test_sys (Name test_cfg) = Some (shared_creator 0)
      \<and> shared_creator 0 failing_heap = (0, failing_heap)
      \<and> Init_at (maxcap test_sys) (clock test_sys) (Config test_cfg) 0 failing_heap
          = Inr (Some AnError, failed_heap)"
    by (simp add: test_sys_def test_cfg_def test_registry_def RegisterAdapter_def
        shared_creator_def failing_heap_def failed_heap_def Init_at_def TestAdapter_Init_def
        NewTestAdapter_def)
  have k: "adapterRegistry mixed_sys (Name kafka_cfg) = Some kafka_creator
      \<and> kafka_creator failing_heap = (1, failing_heap @ [KafkaA zero_KafkaAdapter])
      \<and> Init_at (maxcap mixed_sys) (clock mixed_sys) (Config kafka_cfg) 1
            (failing_heap @ [KafkaA zero_KafkaAdapter])
          = Inr (None, failing_heap @ [KafkaA kafka_ready])"
    by (simp add: mixed_sys_def test_sys_def kafka_cfg_def adapters_init_def RegisterAdapter_def
        kafka_creator_def failing_heap_def Init_at_def KafkaAdapter_Init_empty
        zero_KafkaAdapter_def kafka_ready_def)
  have um: "\<forall>c \<in> set [prometheus_cfg]. adapterRegistry mixed_sys (Name c) = None"
    by (simp add: mixed_sys_def test_sys_def prometheus_cfg_def adapters_init_def
        test_registry_def RegisterAdapter_def)
  have j: "adapterRegistry mixed_sys (Name test_cfg) = Some (shared_creator 0)
      \<and> shared_creator 0 (failing_heap @ [KafkaA kafka_ready])
          = (0, failing_heap @ [KafkaA kafka_ready])
      \<and> Init_at (maxcap mixed_sys) (clock mixed_sys) (Config test_cfg) 0
            (failing_heap @ [KafkaA kafka_ready])
          = Inr (Some AnError, failed_heap @ [KafkaA kafka_ready])"
    by (simp add: mixed_sys_def test_sys_def test_cfg_def adapters_init_def test_registry_def
        RegisterAdapter_def shared_creator_def failing_heap_def failed_heap_def Init_at_def
        TestAdapter_Init_def NewTestAdapter_def)
  have p: "init_adapters mixed_sys [kafka_cfg, prometheus_cfg] [] failing_heap
      = Inr (Inr [1], failing_heap @ [KafkaA kafka_ready])"
    using k um by (simp add: GetAdapter_def)
  from u i unknown_adapter_skipped_Init_error_aborts
      [of test_sys prometheus_cfg "''info''" "[]" "[]" "''default''" "[]" OutputTerminal "[]" "[]"
        fs_empty "[]" "[]" "shared_creator 0" 0 failing_heap]
    unknown_adapter_skipped_Init_error_aborts
      [of test_sys test_cfg "''info''" "[]" "[]" "''default''" "[]" OutputTerminal "[]" "[]"
        fs_empty failing_heap "[]" "shared_creator 0" 0 failing_heap AnError failed_heap]
  have a: "NewZapLogger test_sys ''info'' [] [] ''default'' [] OutputTerminal [prometheus_cfg]
        fs_empty [] = Inr (Inr default_zap, fs_empty, [])"
    and b: "NewZapLogger test_sys ''info'' [] [] ''default'' [] OutputTerminal [test_cfg] fs_empty
        failing_heap
     = Inr (Inl (Errorf ''init adapter test failed'' AnError), fs_empty, failed_heap)"
    by (simp_all add: NewZapLogger_console test_cfg_def)
  from p j unknown_adapter_skipped_Init_error_aborts
      [of mixed_sys test_cfg "''info''" "[]" "[]" "''default''" "[]" OutputTerminal
        "[kafka_cfg, prometheus_cfg]" "[kafka_cfg]" fs_empty failing_heap
        "[kafka_cfg, prometheus_cfg]" "shared_creator 0" 0 failing_heap AnError failed_heap
        "[1]" "failing_heap @ [KafkaA kafka_ready]" "failing_heap @ [KafkaA kafka_ready]"
        "failed_heap @ [KafkaA kafka_ready]"]
  have c: "NewZapLogger mixed_sys ''info'' [] [] ''default'' [] OutputTerminal
        [kafka_cfg, prometheus_cfg] fs_empty failing_heap
     = Inr (Inr (default_zap\<lparr>adapters := [1]\<rparr>), fs_empty, failing_heap @ [KafkaA kafka_ready])"
    and d: "NewZapLogger mixed_sys ''info'' [] [] ''default'' [] OutputTerminal
        [kafka_cfg, prometheus_cfg, test_cfg, kafka_cfg] fs_empty failing_heap
     = Inr (Inl (Errorf ''init adapter test failed'' AnError), fs_empty,
            failed_heap @ [KafkaA kafka_ready])"
    by (auto simp: test_cfg_def NewZapLogger_terminal parse_level_def default_zap_def)
  from a b c d show ?thesis by simp
qed

end
